theory Spec2Isabelle
  imports Complex_Main "HOL-Library.Word"
begin

section \<open>JavaScript values\<close>

text \<open>
  A JavaScript number is NaN, an infinity or a finite value. A finite value is a real; the
  finite numbers of the language are the doubles, and every arithmetic result is rounded
  to one (\<open>round_double\<close> below). The sign of zero is not distinguished (\<open>-0\<close> and
  \<open>+0\<close> are both falsy, equal under \<open>===\<close>, and ordered alike by every comparison
  used here).
\<close>

datatype jsnum = NaN | NegInf | Fin real | PosInf

text \<open>
  Rounding of an exact result to a double: to the nearest value with a 53-bit significand
  at the binary exponent of the argument (not below the exponent -1022 of the subnormal
  numbers), ties to the even significand, and to an infinity from \<open>2^1024\<close> on.
\<close>

definition round_even :: "real \<Rightarrow> int" where
  "round_even q =
     (let f = \<lfloor>q\<rfloor>; r = q - of_int f in
      if r < 1/2 then f else if 1/2 < r then f + 1 else if even f then f else f + 1)"

definition binade :: "real \<Rightarrow> int" where
  "binade a = max \<lfloor>log 2 a\<rfloor> (-1022)"

definition round_double :: "real \<Rightarrow> jsnum" where
  "round_double x =
     (if x = 0 then Fin 0
      else
        let a = \<bar>x\<bar>; u = 2 powi (binade a - 52);
            y = of_int (round_even (a / u)) * u
        in if 2 ^ 1024 \<le> y then (if 0 < x then PosInf else NegInf)
           else Fin (if 0 < x then y else - y))"

text \<open>A decimal literal of the program text denotes the double nearest to it.\<close>

definition num_lit :: "real \<Rightarrow> jsnum" where
  "num_lit x = round_double x"

text \<open>A string is its sequence of UTF-16 code units (what \<open>split("")\<close> yields).\<close>

type_synonym jsstring = "16 word list"

type_synonym cbid = nat
type_synonym elem = nat

text \<open>
  The values the public operations receive: primitives (a symbol with its description),
  functions (known by identity), DOM elements (\<open>nodeType === 1\<close>) and plain objects
  (known by identity, with the conversions every object inherits and no \<open>nodeType\<close>).
\<close>

datatype jsval =
    Undefined
  | Null
  | Bool bool
  | Num jsnum
  | Str jsstring
  | Sym jsstring
  | Fn cbid
  | Elem elem
  | Obj nat

text \<open>A call either returns or throws; \<open>try { ... } catch(e) {}\<close> turns both into a return.\<close>

datatype 'a completion = Returns 'a | Throws

definition try_catch :: "'a completion \<times> 'w \<Rightarrow> unit completion \<times> 'w" where
  "try_catch r = (Returns (), snd r)"

text \<open>Relational operators of the language: every comparison with NaN is false.\<close>

fun num_le :: "jsnum \<Rightarrow> jsnum \<Rightarrow> bool" where
  "num_le NaN _ = False"
| "num_le _ NaN = False"
| "num_le NegInf _ = True"
| "num_le _ PosInf = True"
| "num_le (Fin a) (Fin b) = (a \<le> b)"
| "num_le (Fin a) NegInf = False"
| "num_le PosInf _ = False"

definition num_ge :: "jsnum \<Rightarrow> jsnum \<Rightarrow> bool" where
  "num_ge a b = num_le b a"

definition num_lt :: "jsnum \<Rightarrow> jsnum \<Rightarrow> bool" where
  "num_lt a b = (num_le a b \<and> a \<noteq> b)"

definition num_gt :: "jsnum \<Rightarrow> jsnum \<Rightarrow> bool" where
  "num_gt a b = num_lt b a"

definition strict_eq :: "jsnum \<Rightarrow> jsnum \<Rightarrow> bool" where
  "strict_eq a b = (a \<noteq> NaN \<and> b \<noteq> NaN \<and> a = b)"

definition Math_max :: "jsnum \<Rightarrow> jsnum \<Rightarrow> jsnum" where
  "Math_max a b = (if a = NaN \<or> b = NaN then NaN else if num_le a b then b else a)"

definition Math_min :: "jsnum \<Rightarrow> jsnum \<Rightarrow> jsnum" where
  "Math_min a b = (if a = NaN \<or> b = NaN then NaN else if num_le a b then a else b)"

text \<open>\<open>+\<close> and \<open>*\<close> on numbers: the exact result of two finite operands is rounded.\<close>

fun num_add :: "jsnum \<Rightarrow> jsnum \<Rightarrow> jsnum" where
  "num_add NaN _ = NaN"
| "num_add _ NaN = NaN"
| "num_add (Fin a) (Fin b) = round_double (a + b)"
| "num_add PosInf NegInf = NaN"
| "num_add NegInf PosInf = NaN"
| "num_add PosInf _ = PosInf"
| "num_add NegInf _ = NegInf"
| "num_add (Fin a) b = b"

fun num_mul :: "jsnum \<Rightarrow> jsnum \<Rightarrow> jsnum" where
  "num_mul NaN _ = NaN"
| "num_mul _ NaN = NaN"
| "num_mul (Fin a) (Fin b) = round_double (a * b)"
| "num_mul PosInf b = (if num_lt (Fin 0) b then PosInf else if num_lt b (Fin 0) then NegInf else NaN)"
| "num_mul NegInf b = (if num_lt (Fin 0) b then NegInf else if num_lt b (Fin 0) then PosInf else NaN)"
| "num_mul (Fin a) PosInf = (if 0 < a then PosInf else if a < 0 then NegInf else NaN)"
| "num_mul (Fin a) NegInf = (if 0 < a then NegInf else if a < 0 then PosInf else NaN)"

text \<open>
  \<open>x | 0\<close>: NaN and the infinities give 0; a finite number is truncated towards zero and
  wrapped into the signed 32-bit range.
\<close>

definition to_int32 :: "jsnum \<Rightarrow> int" where
  "to_int32 n =
     (case n of
        Fin x \<Rightarrow>
          (let t = (if 0 \<le> x then \<lfloor>x\<rfloor> else \<lceil>x\<rceil>); m = t mod 2 ^ 32
           in if 2 ^ 31 \<le> m then m - 2 ^ 32 else m)
      | _ \<Rightarrow> 0)"

text \<open>\<open>x || d\<close> on a number \<open>x\<close>: the falsy numbers are NaN and zero.\<close>

definition num_truthy :: "jsnum \<Rightarrow> bool" where
  "num_truthy n = (n \<noteq> NaN \<and> n \<noteq> Fin 0)"

definition num_or :: "jsnum \<Rightarrow> jsnum \<Rightarrow> jsnum" where
  "num_or n d = (if num_truthy n then n else d)"

fun truthy :: "jsval \<Rightarrow> bool" where
  "truthy Undefined = False"
| "truthy Null = False"
| "truthy (Bool b) = b"
| "truthy (Num n) = num_truthy n"
| "truthy (Str s) = (s \<noteq> [])"
| "truthy (Sym d) = True"
| "truthy (Fn f) = True"
| "truthy (Elem e) = True"
| "truthy (Obj b) = True"

definition js_str :: "string \<Rightarrow> jsstring" where
  "js_str s = map (\<lambda>c. of_nat (of_char c)) s"

text \<open>
  The conversions of the language that are not spelled out here are parameters: parsing a
  string as a number, printing a number, and the text of a function or an element.
\<close>

record conv =
  str_to_num :: "jsstring \<Rightarrow> jsnum"
  num_to_str :: "jsnum \<Rightarrow> jsstring"
  fn_to_str :: "cbid \<Rightarrow> jsstring"
  elem_to_str :: "elem \<Rightarrow> jsstring"

text \<open>\<open>Number(v)\<close> throws a TypeError on a symbol; \<open>String(v)\<close> describes it.\<close>

fun Number_js :: "conv \<Rightarrow> jsval \<Rightarrow> jsnum completion" where
  "Number_js cv Undefined = Returns NaN"
| "Number_js cv Null = Returns (Fin 0)"
| "Number_js cv (Bool b) = Returns (if b then Fin 1 else Fin 0)"
| "Number_js cv (Num n) = Returns n"
| "Number_js cv (Str s) = Returns (str_to_num cv s)"
| "Number_js cv (Sym d) = Throws"
| "Number_js cv (Fn f) = Returns NaN"
| "Number_js cv (Elem e) = Returns NaN"
| "Number_js cv (Obj b) = Returns NaN"

fun String_js :: "conv \<Rightarrow> jsval \<Rightarrow> jsstring" where
  "String_js cv Undefined = js_str ''undefined''"
| "String_js cv Null = js_str ''null''"
| "String_js cv (Bool b) = (if b then js_str ''true'' else js_str ''false'')"
| "String_js cv (Num n) = num_to_str cv n"
| "String_js cv (Str s) = s"
| "String_js cv (Sym d) = js_str ''Symbol('' @ d @ js_str '')''"
| "String_js cv (Fn f) = fn_to_str cv f"
| "String_js cv (Elem e) = elem_to_str cv e"
| "String_js cv (Obj b) = js_str ''[object Object]''"

section \<open>sanity.js\<close>

record options =
  opt_start :: jsval
  opt_mount :: jsval

record STATE =
  st_value :: jsnum
  st_min :: jsnum
  st_max :: jsnum
  st_subscribers :: "cbid list"
  st_mountedBadge :: "elem option"
  st_options :: options

definition STATE0 :: STATE where
  "STATE0 = \<lparr> st_value = Fin 100, st_min = Fin 0, st_max = Fin 100, st_subscribers = [],
     st_mountedBadge = None, st_options = \<lparr> opt_start = Num (Fin 100), opt_mount = Null \<rparr> \<rparr>"

text \<open>
  What the store does to its surroundings: the calls it makes to subscriber callbacks, the
  \<open>sanity:change\<close> events it dispatches on the window, and the values it writes into the
  badge (\<open>(el, v)\<close> for the text \<open>v/100\<close>).
\<close>

record world =
  calls :: "(cbid \<times> jsnum) list"
  events :: "jsnum list"
  badge_writes :: "(elem \<times> jsnum) list"

text \<open>
  The surroundings the store runs in. A callback is known by its identity; whether a call
  of it throws may depend on the argument and on the calls made so far. Callbacks do not
  call back into the store.
\<close>

record host =
  cb_throws :: "(cbid \<times> jsnum) list \<Rightarrow> cbid \<Rightarrow> jsnum \<Rightarrow> bool"
  event_ok :: bool
  querySelector :: "jsstring \<Rightarrow> elem option completion"
  existing_pill :: "elem \<Rightarrow> elem option"
  new_pill :: "elem \<Rightarrow> elem"
  has_val_span :: "elem \<Rightarrow> bool"
  cv :: conv

definition clamp :: "jsnum \<Rightarrow> jsnum \<Rightarrow> jsnum \<Rightarrow> jsnum" where
  "clamp v lo hi = Math_max lo (Math_min hi v)"

definition invoke :: "host \<Rightarrow> cbid \<Rightarrow> jsnum \<Rightarrow> world \<Rightarrow> unit completion \<times> world" where
  "invoke h cb val w =
     (if cb_throws h (calls w) cb val then Throws else Returns (),
      w\<lparr>calls := calls w @ [(cb, val)]\<rparr>)"

fun notify_loop :: "host \<Rightarrow> jsnum \<Rightarrow> cbid list \<Rightarrow> world \<Rightarrow> unit completion \<times> world" where
  "notify_loop h val [] w = (Returns (), w)"
| "notify_loop h val (cb # cbs) w =
     (case try_catch (invoke h cb val w) of
        (Throws, w') \<Rightarrow> (Throws, w')
      | (Returns u, w') \<Rightarrow> notify_loop h val cbs w')"

definition dispatch_change :: "host \<Rightarrow> jsnum \<Rightarrow> world \<Rightarrow> unit completion \<times> world" where
  "dispatch_change h val w =
     (if event_ok h then (Returns (), w\<lparr>events := events w @ [val]\<rparr>) else (Throws, w))"

definition notify :: "host \<Rightarrow> STATE \<Rightarrow> world \<Rightarrow> unit completion \<times> world" where
  "notify h st w =
     (let val = st_value st in
      case notify_loop h val (st_subscribers st) w of
        (Throws, w1) \<Rightarrow> (Throws, w1)
      | (Returns u, w1) \<Rightarrow>
         (case try_catch (dispatch_change h val w1) of
            (Throws, w2) \<Rightarrow> (Throws, w2)
          | (Returns u, w2) \<Rightarrow>
             (case st_mountedBadge st of
                None \<Rightarrow> (Returns (), w2)
              | Some b \<Rightarrow>
                 if has_val_span h b
                 then (Returns (), w2\<lparr>badge_writes := badge_writes w2 @ [(b, val)]\<rparr>)
                 else (Returns (), w2))))"

fun tierFor :: "jsnum \<Rightarrow> nat" where
  "tierFor v =
     (if num_ge v (Fin 80) then 1 else if num_ge v (Fin 60) then 2
      else if num_ge v (Fin 40) then 3 else if num_ge v (Fin 20) then 4 else 5)"

definition Sanity_get :: "STATE \<Rightarrow> jsnum" where
  "Sanity_get st = st_value st"

definition Sanity_set :: "host \<Rightarrow> jsval \<Rightarrow> STATE \<Rightarrow> world \<Rightarrow> jsnum completion \<times> STATE \<times> world" where
  "Sanity_set h v st w =
     (case Number_js (cv h) v of
        Throws \<Rightarrow> (Throws, st, w)
      | Returns n \<Rightarrow>
         (let nv = clamp (num_or n (Fin 0)) (st_min st) (st_max st) in
          if strict_eq nv (st_value st) then (Returns (st_value st), st, w)
          else
            let st' = st\<lparr>st_value := nv\<rparr> in
            case notify h st' w of
              (Throws, w') \<Rightarrow> (Throws, st', w')
            | (Returns u, w') \<Rightarrow> (Returns (st_value st'), st', w')))"

definition Sanity_add :: "host \<Rightarrow> jsval \<Rightarrow> STATE \<Rightarrow> world \<Rightarrow> jsnum completion \<times> STATE \<times> world" where
  "Sanity_add h delta st w =
     (case Number_js (cv h) delta of
        Throws \<Rightarrow> (Throws, st, w)
      | Returns n \<Rightarrow>
         (let nv = clamp (num_add (st_value st) (num_or n (Fin 0))) (st_min st) (st_max st) in
          if strict_eq nv (st_value st) then (Returns (st_value st), st, w)
          else
            let st' = st\<lparr>st_value := nv\<rparr> in
            case notify h st' w of
              (Throws, w') \<Rightarrow> (Throws, st', w')
            | (Returns u, w') \<Rightarrow> (Returns (st_value st'), st', w')))"

definition ensureBadge :: "host \<Rightarrow> elem \<Rightarrow> STATE \<Rightarrow> world \<Rightarrow> elem completion \<times> STATE \<times> world" where
  "ensureBadge h container st w =
     (case existing_pill h container of
        Some pill \<Rightarrow>
          (let st' = st\<lparr>st_mountedBadge := Some pill\<rparr> in
           case notify h st' w of
             (Throws, w') \<Rightarrow> (Throws, st', w')
           | (Returns u, w') \<Rightarrow> (Returns pill, st', w'))
      | None \<Rightarrow>
          (let pill = new_pill h container;
               st' = st\<lparr>st_mountedBadge := Some pill\<rparr> in
           case notify h st' w of
             (Throws, w') \<Rightarrow> (Throws, st', w')
           | (Returns u, w') \<Rightarrow> (Returns pill, st', w')))"

text \<open>
  The argument of \<open>init\<close>: no object at all, or an object in which each of the keys
  \<open>start\<close> and \<open>mount\<close> is present (with a value) or absent.
\<close>

record init_opts =
  given_start :: "jsval option"
  given_mount :: "jsval option"

definition assign_options :: "options \<Rightarrow> init_opts option \<Rightarrow> options" where
  "assign_options old opts =
     (case opts of
        None \<Rightarrow> old
      | Some g \<Rightarrow>
          \<lparr> opt_start = (case given_start g of None \<Rightarrow> opt_start old | Some v \<Rightarrow> v),
            opt_mount = (case given_mount g of None \<Rightarrow> opt_mount old | Some v \<Rightarrow> v) \<rparr>)"

text \<open>\<open>x ?? d\<close>: the default is taken for \<open>undefined\<close> and \<open>null\<close> only.\<close>

definition nullish_or :: "jsval \<Rightarrow> jsval \<Rightarrow> jsval" where
  "nullish_or x d = (if x = Undefined \<or> x = Null then d else x)"

definition find_container :: "host \<Rightarrow> jsval \<Rightarrow> elem option completion" where
  "find_container h mount =
     (case mount of
        Str sel \<Rightarrow> querySelector h sel
      | Elem e \<Rightarrow> Returns (Some e)
      | _ \<Rightarrow> Returns None)"

definition Sanity_init :: "host \<Rightarrow> init_opts option \<Rightarrow> STATE \<Rightarrow> world \<Rightarrow> unit completion \<times> STATE \<times> world" where
  "Sanity_init h opts st w =
     (let st1 = st\<lparr>st_options := assign_options (st_options st) opts\<rparr> in
      case Number_js (cv h) (nullish_or (opt_start (st_options st1)) (Num (Fin 100))) of
        Throws \<Rightarrow> (Throws, st1, w)
      | Returns n \<Rightarrow>
         (let st2 = st1\<lparr>st_value := clamp (num_or n (Fin 100)) (st_min st1) (st_max st1)\<rparr>;
              mount = opt_mount (st_options st2);
              mounted =
                (if truthy mount then
                   (case find_container h mount of
                      Throws \<Rightarrow> (Throws, st2, w)
                    | Returns None \<Rightarrow> (Returns (), st2, w)
                    | Returns (Some container) \<Rightarrow>
                        (case ensureBadge h container st2 w of
                           (Throws, st3, w3) \<Rightarrow> (Throws, st3, w3)
                         | (Returns p, st3, w3) \<Rightarrow> (Returns (), st3, w3)))
                 else (Returns (), st2, w))
          in case mounted of
               (Throws, st3, w3) \<Rightarrow> (Throws, st3, w3)
             | (Returns u, st3, w3) \<Rightarrow>
                 (case notify h st3 w3 of (c, w4) \<Rightarrow> (c, st3, w4))))"

text \<open>\<open>indexOf\<close> (first position, or -1) and \<open>splice(i, 1)\<close>.\<close>

fun indexOf :: "'a list \<Rightarrow> 'a \<Rightarrow> int" where
  "indexOf [] x = -1"
| "indexOf (y # ys) x = (if y = x then 0 else (let i = indexOf ys x in if i < 0 then -1 else i + 1))"

definition splice1 :: "'a list \<Rightarrow> nat \<Rightarrow> 'a list" where
  "splice1 xs i = take i xs @ drop (Suc i) xs"

definition unsubscribe :: "cbid \<Rightarrow> STATE \<Rightarrow> STATE" where
  "unsubscribe cb st =
     (let i = indexOf (st_subscribers st) cb in
      if i \<ge> 0 then st\<lparr>st_subscribers := splice1 (st_subscribers st) (nat i)\<rparr> else st)"

definition Sanity_subscribe ::
  "host \<Rightarrow> jsval \<Rightarrow> STATE \<Rightarrow> world \<Rightarrow> (STATE \<Rightarrow> STATE) completion \<times> STATE \<times> world" where
  "Sanity_subscribe h cb st w =
     (case cb of
        Fn f \<Rightarrow>
          (let st' = st\<lparr>st_subscribers := st_subscribers st @ [f]\<rparr> in
           case try_catch (invoke h f (st_value st') w) of
             (Throws, w') \<Rightarrow> (Throws, st', w')
           | (Returns u, w') \<Rightarrow> (Returns (unsubscribe f), st', w'))
      | _ \<Rightarrow> (Returns (\<lambda>s. s), st, w))"

subsection \<open>The typewriter glitch wrapper\<close>

text \<open>The character class \<open>[A-Za-z\<dots>0-9,.\<dots>\-!?]\<close> of \<open>mutate\<close>, on one code unit.\<close>

definition glitchable :: "16 word \<Rightarrow> bool" where
  "glitchable c =
     ((0x41 \<le> c \<and> c \<le> 0x5A) \<or> (0x61 \<le> c \<and> c \<le> 0x7A) \<or> (0xC0 \<le> c \<and> c \<le> 0x17E)
      \<or> (0x30 \<le> c \<and> c \<le> 0x39) \<or> c = 0x2C \<or> c = 0x2E \<or> c = 0x2026 \<or> c = 0x2D
      \<or> c = 0x21 \<or> c = 0x3F)"

text \<open>
  \<open>Math.random()\<close> is a sequence of rolls, each a double in the half-open interval from
  0 to 1, read at a position that every call advances. The kind of distortion is
  \<open>kinds[(Math.random() * kinds.length) | 0]\<close>, with five kinds; an index outside the
  array takes the \<open>default\<close> branch.
\<close>

type_synonym rolls = "nat \<Rightarrow> real"

definition mutate :: "jsnum \<Rightarrow> rolls \<Rightarrow> 16 word \<Rightarrow> nat \<Rightarrow> jsstring \<times> nat" where
  "mutate intensity rnd ch i =
     (if \<not> glitchable ch then ([ch], i)
      else
        let roll = Fin (rnd i) in
        if num_gt roll intensity then ([ch], i + 1)
        else
          let k = to_int32 (num_mul (Fin (rnd (i + 1))) (Fin 5)) in
          if k = 0 then ([ch, ch], i + 2)
          else if k = 1 then ((if num_lt (Fin (rnd (i + 2))) (Fin 0.5) then [0xAC] else [0xA7]), i + 3)
          else if k = 2 then ([0xB7], i + 2)
          else if k = 3 then ([0x7E], i + 2)
          else if k = 4 then ([ch, 0x200A], i + 2)
          else ([ch], i + 2))"

fun mutate_all :: "jsnum \<Rightarrow> rolls \<Rightarrow> jsstring \<Rightarrow> nat \<Rightarrow> jsstring \<times> nat" where
  "mutate_all intensity rnd [] i = ([], i)"
| "mutate_all intensity rnd (ch # rest) i =
     (case mutate intensity rnd ch i of
        (out, i') \<Rightarrow> (case mutate_all intensity rnd rest i' of (outs, i'') \<Rightarrow> (out @ outs, i'')))"

definition intensity_of :: "STATE \<Rightarrow> jsnum" where
  "intensity_of st =
     (let v = Sanity_get st; t = tierFor v in
      if t \<le> 2 then Fin 0
      else (if t = 3 then num_lit 0.03 else if t = 4 then num_lit 0.08 else num_lit 0.14))"

definition wrapped ::
  "host \<Rightarrow> (jsstring \<Rightarrow> 'r) \<Rightarrow> STATE \<Rightarrow> rolls \<Rightarrow> jsval \<Rightarrow> nat \<Rightarrow> 'r \<times> nat" where
  "wrapped h typeFn st rnd text i =
     (let intensity = intensity_of st in
      case mutate_all intensity rnd (String_js (cv h) text) i of
        (glitched, i') \<Rightarrow>
          (let finalOut = (if num_lt (Fin (rnd i')) (num_mul intensity (Fin 0.5))
                           then glitched @ [0x200D] else glitched)
           in (typeFn finalOut, i' + 1)))"

definition Sanity_wrapTypeText ::
  "host \<Rightarrow> (jsstring \<Rightarrow> 'r) option \<Rightarrow> STATE \<Rightarrow> rolls \<Rightarrow> jsval \<Rightarrow> nat \<Rightarrow> 'r option \<times> nat" where
  "Sanity_wrapTypeText h typeFn =
     (case typeFn of
        None \<Rightarrow> (\<lambda>st rnd t i. (None, i))
      | Some f \<Rightarrow> (\<lambda>st rnd t i. case wrapped h f st rnd t i of (r, i') \<Rightarrow> (Some r, i')))"

section \<open>inventory.js\<close>

text \<open>
  The two event types the store uses, and the payload of each: the item list for a change,
  \<open>{item: name}\<close> for a use.
\<close>

datatype evtype = inventory_change | inventory_use

datatype detail = ItemList "jsstring list" | UseItem jsstring

text \<open>
  A \<open>Set\<close> keeps its members in insertion order without duplicates: a list, with \<open>add\<close>
  appending only a new member.
\<close>

definition Set_has :: "'a list \<Rightarrow> 'a \<Rightarrow> bool" where
  "Set_has xs x = (x \<in> set xs)"

definition Set_add :: "'a list \<Rightarrow> 'a \<Rightarrow> 'a list" where
  "Set_add xs x = (if Set_has xs x then xs else xs @ [x])"

definition Set_delete :: "'a list \<Rightarrow> 'a \<Rightarrow> 'a list" where
  "Set_delete xs x = filter (\<lambda>y. y \<noteq> x) xs"

record inventory =
  items :: "jsstring list"
  listeners :: "evtype \<Rightarrow> cbid list option"

text \<open>
  The surroundings of the inventory: the calls made to listeners, the events dispatched on
  the window, the errors reported on the console, and the array persisted under the key
  \<open>cw.inventory.v1\<close> (if any).
\<close>

record inv_world =
  inv_calls :: "(cbid \<times> detail) list"
  inv_events :: "(evtype \<times> detail) list"
  console_errors :: "cbid list"
  storage :: "jsstring list option"

record inv_host =
  listener_throws :: "(cbid \<times> detail) list \<Rightarrow> cbid \<Rightarrow> detail \<Rightarrow> bool"
  window_ok :: bool
  setItem_throws :: "jsstring list \<Rightarrow> bool"
  icv :: conv

definition list_items :: "inventory \<Rightarrow> jsstring list" where
  "list_items iv = items iv"

definition inv_invoke :: "inv_host \<Rightarrow> cbid \<Rightarrow> detail \<Rightarrow> inv_world \<Rightarrow> unit completion \<times> inv_world" where
  "inv_invoke h cb d w =
     (if listener_throws h (inv_calls w) cb d then Throws else Returns (),
      w\<lparr>inv_calls := inv_calls w @ [(cb, d)]\<rparr>)"

fun dispatch_loop :: "inv_host \<Rightarrow> detail \<Rightarrow> cbid list \<Rightarrow> inv_world \<Rightarrow> unit completion \<times> inv_world" where
  "dispatch_loop h d [] w = (Returns (), w)"
| "dispatch_loop h d (cb # cbs) w =
     (case inv_invoke h cb d w of
        (Throws, w') \<Rightarrow> dispatch_loop h d cbs (w'\<lparr>console_errors := console_errors w' @ [cb]\<rparr>)
      | (Returns u, w') \<Rightarrow> dispatch_loop h d cbs w')"

definition window_dispatch :: "inv_host \<Rightarrow> evtype \<Rightarrow> detail \<Rightarrow> inv_world \<Rightarrow> unit completion \<times> inv_world" where
  "window_dispatch h ty d w =
     (if window_ok h then (Returns (), w\<lparr>inv_events := inv_events w @ [(ty, d)]\<rparr>)
      else (Throws, w))"

definition dispatch :: "inv_host \<Rightarrow> evtype \<Rightarrow> detail \<Rightarrow> inventory \<Rightarrow> inv_world \<Rightarrow> unit completion \<times> inv_world" where
  "dispatch h ty d iv w =
     (case (case listeners iv ty of
              None \<Rightarrow> (Returns (), w)
            | Some cbs \<Rightarrow> dispatch_loop h d cbs w) of
        (Throws, w1) \<Rightarrow> (Throws, w1)
      | (Returns u, w1) \<Rightarrow> try_catch (window_dispatch h ty d w1))"

definition setItem :: "inv_host \<Rightarrow> jsstring list \<Rightarrow> inv_world \<Rightarrow> unit completion \<times> inv_world" where
  "setItem h xs w = (if setItem_throws h xs then (Throws, w) else (Returns (), w\<lparr>storage := Some xs\<rparr>))"

definition save :: "inv_host \<Rightarrow> inventory \<Rightarrow> inv_world \<Rightarrow> unit completion \<times> inv_world" where
  "save h iv w =
     (case try_catch (setItem h (list_items iv) w) of
        (Throws, w1) \<Rightarrow> (Throws, w1)
      | (Returns u, w1) \<Rightarrow> dispatch h inventory_change (ItemList (list_items iv)) iv w1)"

definition Inventory_add ::
  "inv_host \<Rightarrow> jsval \<Rightarrow> inventory \<Rightarrow> inv_world \<Rightarrow> unit completion \<times> inventory \<times> inv_world" where
  "Inventory_add h name iv w =
     (if \<not> truthy name then (Returns (), iv, w)
      else
        let iv' = iv\<lparr>items := Set_add (items iv) (String_js (icv h) name)\<rparr> in
        case save h iv' w of (c, w') \<Rightarrow> (c, iv', w'))"

definition Inventory_remove ::
  "inv_host \<Rightarrow> jsval \<Rightarrow> inventory \<Rightarrow> inv_world \<Rightarrow> unit completion \<times> inventory \<times> inv_world" where
  "Inventory_remove h name iv w =
     (let iv' = iv\<lparr>items := Set_delete (items iv) (String_js (icv h) name)\<rparr> in
      case save h iv' w of (c, w') \<Rightarrow> (c, iv', w'))"


definition Inventory_clear ::
  "inv_host \<Rightarrow> inventory \<Rightarrow> inv_world \<Rightarrow> unit completion \<times> inventory \<times> inv_world" where
  "Inventory_clear h iv w =
     (let iv' = iv\<lparr>items := []\<rparr> in
      case save h iv' w of (c, w') \<Rightarrow> (c, iv', w'))"

definition Inventory_use ::
  "inv_host \<Rightarrow> jsval \<Rightarrow> inventory \<Rightarrow> inv_world \<Rightarrow> unit completion \<times> inventory \<times> inv_world" where
  "Inventory_use h name iv w =
     (if \<not> Set_has (items iv) (String_js (icv h) name) then (Returns (), iv, w)
      else
        case dispatch h inventory_use (UseItem (String_js (icv h) name)) iv w of
          (c, w') \<Rightarrow> (c, iv, w'))"

text \<open>\<open>on(type, cb, {immediateValue})\<close>; the unsubscribe function it returns is \<open>off\<close>.\<close>

definition off :: "evtype \<Rightarrow> cbid \<Rightarrow> inventory \<Rightarrow> inventory" where
  "off ty cb iv =
     (case listeners iv ty of
        None \<Rightarrow> iv
      | Some cbs \<Rightarrow> iv\<lparr>listeners := (listeners iv)(ty \<mapsto> Set_delete cbs cb)\<rparr>)"

definition on ::
  "inv_host \<Rightarrow> evtype \<Rightarrow> jsval \<Rightarrow> detail option \<Rightarrow> inventory \<Rightarrow> inv_world \<Rightarrow>
     (inventory \<Rightarrow> inventory) completion \<times> inventory \<times> inv_world" where
  "on h ty cb immediateValue iv w =
     (case cb of
        Fn f \<Rightarrow>
          (let cbs = (case listeners iv ty of None \<Rightarrow> [] | Some cbs \<Rightarrow> cbs);
               iv' = iv\<lparr>listeners := (listeners iv)(ty \<mapsto> Set_add cbs f)\<rparr>
           in case immediateValue of
                None \<Rightarrow> (Returns (off ty f), iv', w)
              | Some d \<Rightarrow>
                  (case try_catch (inv_invoke h f d w) of
                     (Throws, w') \<Rightarrow> (Throws, iv', w')
                   | (Returns u, w') \<Rightarrow> (Returns (off ty f), iv', w')))
      | _ \<Rightarrow> (Returns (\<lambda>i. i), iv, w))"

definition Inventory_onChange ::
  "inv_host \<Rightarrow> jsval \<Rightarrow> inventory \<Rightarrow> inv_world \<Rightarrow>
     (inventory \<Rightarrow> inventory) completion \<times> inventory \<times> inv_world" where
  "Inventory_onChange h cb iv w = on h inventory_change cb (Some (ItemList (list_items iv))) iv w"

definition Inventory_onUse ::
  "inv_host \<Rightarrow> jsval \<Rightarrow> inventory \<Rightarrow> inv_world \<Rightarrow>
     (inventory \<Rightarrow> inventory) completion \<times> inventory \<times> inv_world" where
  "Inventory_onUse h cb iv w = on h inventory_use cb None iv w"

section \<open>Specification vocabulary and example surroundings\<close>

text \<open>
  The range of the meter, the invariant of the store (the bounds are 0 and 100 and the
  value lies between them), and the two functions the specification speaks of: an invalid
  number read as 0, and clamping into the range.
\<close>

definition in_range :: "jsnum \<Rightarrow> bool" where
  "in_range n = (case n of Fin x \<Rightarrow> 0 \<le> x \<and> x \<le> 100 | _ \<Rightarrow> False)"

definition sane :: "STATE \<Rightarrow> bool" where
  "sane st = (st_min st = Fin 0 \<and> st_max st = Fin 100 \<and> in_range (st_value st))"

definition or_zero :: "jsnum \<Rightarrow> jsnum" where
  "or_zero n = (if n = NaN then Fin 0 else n)"

definition clamp_0_100 :: "jsnum \<Rightarrow> jsnum" where
  "clamp_0_100 n =
     (case n of NaN \<Rightarrow> NaN | NegInf \<Rightarrow> Fin 0 | PosInf \<Rightarrow> Fin 100
      | Fin x \<Rightarrow> Fin (if x < 0 then 0 else if 100 < x then 100 else x))"

text \<open>Surroundings for the examples: no callback throws, the window takes every event.\<close>

definition conv0 :: conv where
  "conv0 = \<lparr> str_to_num = (\<lambda>s. NaN), num_to_str = (\<lambda>n. []), fn_to_str = (\<lambda>f. []),
              elem_to_str = (\<lambda>e. []) \<rparr>"

definition host0 :: host where
  "host0 = \<lparr> cb_throws = (\<lambda>hist cb v. False), event_ok = True,
              querySelector = (\<lambda>sel. Returns None), existing_pill = (\<lambda>e. None),
              new_pill = (\<lambda>e. Suc e), has_val_span = (\<lambda>e. True), cv = conv0 \<rparr>"

definition world0 :: world where
  "world0 = \<lparr> calls = [], events = [], badge_writes = [] \<rparr>"

definition host_throwing :: host where
  "host_throwing = host0\<lparr> cb_throws := (\<lambda>hist cb v. True), event_ok := False \<rparr>"

definition STATE1 :: STATE where
  "STATE1 = STATE0\<lparr> st_subscribers := [1, 2] \<rparr>"

text \<open>
  The scenario of the specification: \<open>init({start: 50})\<close>, then \<open>add(-70)\<close>, then
  \<open>add(1000)\<close>.
\<close>

definition scenario1 :: STATE where
  "scenario1 = fst (snd (Sanity_init host0 (Some \<lparr>given_start = Some (Num (Fin 50)), given_mount = None\<rparr>)
                           STATE0 world0))"

definition scenario2 :: STATE where
  "scenario2 = fst (snd (Sanity_add host0 (Num (Fin (-70))) scenario1 world0))"

definition scenario3 :: STATE where
  "scenario3 = fst (snd (Sanity_add host0 (Num (Fin 1000)) scenario2 world0))"

text \<open>The listeners registered for an event type (none when the type has no entry).\<close>

definition listeners_of :: "inventory \<Rightarrow> evtype \<Rightarrow> cbid list" where
  "listeners_of iv ty = (case listeners iv ty of None \<Rightarrow> [] | Some cbs \<Rightarrow> cbs)"

definition inv_host0 :: inv_host where
  "inv_host0 = \<lparr> listener_throws = (\<lambda>hist cb d. False), window_ok = True,
                  setItem_throws = (\<lambda>xs. False), icv = conv0 \<rparr>"

definition inv_host_throwing :: inv_host where
  "inv_host_throwing = \<lparr> listener_throws = (\<lambda>hist cb d. True), window_ok = False,
                  setItem_throws = (\<lambda>xs. True), icv = conv0 \<rparr>"

definition inv_world0 :: inv_world where
  "inv_world0 = \<lparr> inv_calls = [], inv_events = [], console_errors = [], storage = None \<rparr>"

definition key_item :: jsstring where
  "key_item = js_str ''key''"

definition map_item :: jsstring where
  "map_item = js_str ''map''"

definition inventory1 :: inventory where
  "inventory1 = \<lparr> items = [key_item],
                   listeners = [inventory_change \<mapsto> [1, 2], inventory_use \<mapsto> [3]] \<rparr>"


section \<open>Properties of the sanity store\<close>

subsection \<open>Rounding\<close>

lemma round_double_not_NaN: "round_double x \<noteq> NaN"
  by (simp add: round_double_def Let_def)

lemma round_double_zero: "round_double 0 = Fin 0"
  by (simp add: round_double_def)

lemma binade_eq:
  assumes "2 powi k \<le> a" and "a < 2 powi (k + 1)" and "-1022 \<le> k"
  shows "binade a = k"
proof -
  have p: "0 < a" using assms(1) by (smt (verit) zero_less_power_int)
  have 1: "(2::real) powr (of_int k) = 2 powi k"
    by (simp add: powr_real_of_int')
  have 2: "(2::real) powr (of_int k + 1) = 2 powi (k + 1)"
    using powr_real_of_int'[of 2 "k + 1"] by simp
  have "\<lfloor>log 2 a\<rfloor> = k"
    using assms p by (simp add: floor_log_eq_powr_iff 1 2)
  with assms(3) show ?thesis by (simp add: binade_def)
qed

lemma round_double_binade:
  assumes "2 powi k \<le> \<bar>x\<bar>" and "\<bar>x\<bar> < 2 powi (k + 1)" and "-1022 \<le> k"
  shows "round_double x =
     (let u = 2 powi (k - 52); y = of_int (round_even (\<bar>x\<bar> / u)) * u
      in if 2 ^ 1024 \<le> y then (if 0 < x then PosInf else NegInf)
         else Fin (if 0 < x then y else - y))"
proof -
  have "x \<noteq> 0" using assms(1) by (smt (verit) zero_less_power_int)
  moreover have "binade \<bar>x\<bar> = k" by (rule binade_eq[OF assms])
  ultimately show ?thesis
    unfolding round_double_def Let_def by (simp only: if_False)
qed

text \<open>
  Sums as the language computes them: \<open>0.1 + 0.2\<close> is \<open>0.30000000000000004\<close>, and
  adding \<open>-2^-60\<close> to 100 leaves 100.
\<close>

lemma round_double_examples:
  "round_double 105 = Fin 105"
  "round_double (-30) = Fin (-30)"
  "round_double (-20) = Fin (-20)"
  "round_double 1000 = Fin 1000"
  "round_double (100 - 1 / 2 ^ 60) = Fin 100"
  "round_double (3602879701896397 / 2 ^ 55 + 3602879701896397 / 2 ^ 54)
     = Fin (5404319552844596 / 2 ^ 54)"
  by (simp_all add: round_double_binade[where k = 6] round_double_binade[where k = 4]
        round_double_binade[where k = 9] round_double_binade[where k = "-2"]
        round_even_def Let_def)

lemma num_add_examples:
  "num_add (Fin 100) (Fin (- (1 / 2 ^ 60))) = Fin 100"
  "num_add (Fin (3602879701896397 / 2 ^ 55)) (Fin (3602879701896397 / 2 ^ 54))
     = Fin (5404319552844596 / 2 ^ 54)"
  using round_double_examples(5,6) by simp_all

lemma round_double_overflow:
  "round_double (2 ^ 1024 - 2 ^ 971) = Fin (2 ^ 1024 - 2 ^ 971)"
  "round_double (2 ^ 1024) = PosInf"
  "round_double (- (2 ^ 1024)) = NegInf"
  by (simp_all add: round_double_binade[where k = 1023] round_double_binade[where k = 1024]
        round_even_def Let_def)

text \<open>The kind index for the roll 0.6: the product rounds to 3, so the kind is the fourth.\<close>

lemma kind_index_example:
  "num_mul (Fin (5404319552844595 / 2 ^ 53)) (Fin 5) = Fin 3"
  "to_int32 (num_mul (Fin (5404319552844595 / 2 ^ 53)) (Fin 5)) = 3"
  by (simp_all add: round_double_binade[where k = 1] round_even_def Let_def to_int32_def)

lemma num_lit_values:
  "num_lit 0.03 = Fin (8646911284551352 / 2 ^ 58)"
  "num_lit 0.08 = Fin (5764607523034235 / 2 ^ 56)"
  "num_lit 0.14 = Fin (5044031582654956 / 2 ^ 55)"
  by (simp_all add: num_lit_def round_double_binade[where k = "-6"]
        round_double_binade[where k = "-4"] round_double_binade[where k = "-3"]
        round_even_def Let_def)


subsection \<open>The notification fan-out, computed\<close>

lemma notify_loop_eq:
  "notify_loop h val cbs w = (Returns (), w\<lparr>calls := calls w @ map (\<lambda>cb. (cb, val)) cbs\<rparr>)"
  by (induction cbs arbitrary: w) (simp_all add: try_catch_def invoke_def)

lemma notify_eq:
  "notify h st w =
     (Returns (),
      w\<lparr>calls := calls w @ map (\<lambda>cb. (cb, st_value st)) (st_subscribers st),
        events := (if event_ok h then events w @ [st_value st] else events w),
        badge_writes :=
          (case st_mountedBadge st of
             None \<Rightarrow> badge_writes w
           | Some b \<Rightarrow> if has_val_span h b then badge_writes w @ [(b, st_value st)] else badge_writes w)\<rparr>)"
  by (simp add: notify_def notify_loop_eq try_catch_def dispatch_change_def Let_def split: option.splits)

subsection \<open>Clamping\<close>

lemma clamp_eq: "clamp n (Fin 0) (Fin 100) = clamp_0_100 n"
  by (cases n) (auto simp: clamp_def Math_max_def Math_min_def clamp_0_100_def)

lemma clamp_in_range: "n \<noteq> NaN \<Longrightarrow> in_range (clamp_0_100 n)"
  by (cases n) (auto simp: clamp_0_100_def in_range_def)

lemma num_or_zero: "num_or n (Fin 0) = or_zero n"
  by (auto simp: num_or_def or_zero_def num_truthy_def)

lemma or_zero_not_NaN: "or_zero n \<noteq> NaN"
  by (simp add: or_zero_def)

lemma num_add_not_NaN: "in_range a \<Longrightarrow> b \<noteq> NaN \<Longrightarrow> num_add a b \<noteq> NaN"
  by (cases a; cases b) (auto simp: in_range_def round_double_not_NaN)


lemma Sanity_add_value:
  assumes "sane st" and "Number_js (cv h) d = Returns m"
  shows "st_value (fst (snd (Sanity_add h d st w))) = clamp_0_100 (num_add (st_value st) (or_zero m))"
    and "fst (Sanity_add h d st w) = Returns (clamp_0_100 (num_add (st_value st) (or_zero m)))"
proof -
  let ?s = "num_add (st_value st) (or_zero m)"
  from assms have "?s \<noteq> NaN"
    by (simp add: sane_def num_add_not_NaN or_zero_not_NaN)
  then have r: "in_range (clamp_0_100 ?s)" by (rule clamp_in_range)
  from assms r
  show "st_value (fst (snd (Sanity_add h d st w))) = clamp_0_100 ?s"
    by (auto simp: Sanity_add_def sane_def clamp_eq num_or_zero notify_eq Let_def strict_eq_def)
  from assms r
  show "fst (Sanity_add h d st w) = Returns (clamp_0_100 ?s)"
    by (auto simp: Sanity_add_def sane_def clamp_eq num_or_zero notify_eq Let_def strict_eq_def)
qed

lemma Sanity_set_throws:
  "Number_js (cv h) v = Throws \<Longrightarrow> Sanity_set h v st w = (Throws, st, w)"
  "Number_js (cv h) v = Throws \<Longrightarrow> Sanity_add h v st w = (Throws, st, w)"
  by (simp_all add: Sanity_set_def Sanity_add_def)


lemma Sanity_add_sane: "sane st \<Longrightarrow> sane (fst (snd (Sanity_add h d st w)))"
proof (cases "Number_js (cv h) d")
  case (Returns m)
  assume s: "sane st"
  then have "num_add (st_value st) (or_zero m) \<noteq> NaN"
    by (simp add: sane_def num_add_not_NaN or_zero_not_NaN)
  then have "in_range (clamp_0_100 (num_add (st_value st) (or_zero m)))" by (rule clamp_in_range)
  with s show ?thesis
    using Sanity_add_value(1)[OF s Returns, of w]
    by (auto simp: Sanity_add_def Returns sane_def Let_def notify_eq)
next
  case Throws
  assume "sane st"
  then show ?thesis by (simp add: Sanity_set_throws[OF Throws])
qed

lemma sane_STATE0: "sane STATE0"
  by (simp add: sane_def STATE0_def in_range_def)





subsection \<open>Glitch intensity\<close>

lemma tierFor_Fin:
  "tierFor (Fin x) = (if 80 \<le> x then 1 else if 60 \<le> x then 2 else if 40 \<le> x then 3
                      else if 20 \<le> x then 4 else 5)"
  by (simp add: num_ge_def)

lemma intensity_of_Fin:
  assumes "Sanity_get st = Fin x"
  shows "intensity_of st =
           (if 60 \<le> x then Fin 0 else if 40 \<le> x then num_lit 0.03
            else if 20 \<le> x then num_lit 0.08 else num_lit 0.14)"
  using assms by (simp add: intensity_of_def tierFor_Fin Let_def del: tierFor.simps)

text \<open>
  C2. The function returned by \<open>wrapTypeText\<close> glitches the text with an intensity that
  is a step function of the current sanity value \<open>x\<close>: it mutates the characters, and
  decides on the zero-width joiner, with intensity 0 from 60 upwards, 0.03 from 40 up to
  60, 0.08 from 20 up to 40, and 0.14 below 20.
\<close>

theorem wrapTypeText_intensity_step:
  assumes "Sanity_get st = Fin x"
  shows "Sanity_wrapTypeText h (Some typeFn) st rnd text i =
           (let intensity = (if 60 \<le> x then Fin 0 else if 40 \<le> x then num_lit 0.03
                             else if 20 \<le> x then num_lit 0.08 else num_lit 0.14)
            in case mutate_all intensity rnd (String_js (cv h) text) i of
                 (glitched, i') \<Rightarrow>
                   (Some (typeFn (if num_lt (Fin (rnd i')) (num_mul intensity (Fin 0.5))
                                  then glitched @ [0x200D] else glitched)),
                    i' + 1))"
proof -
  have "wrapped h typeFn st rnd text i =
          (case mutate_all (intensity_of st) rnd (String_js (cv h) text) i of
             (glitched, i') \<Rightarrow>
               (typeFn (if num_lt (Fin (rnd i')) (num_mul (intensity_of st) (Fin 0.5))
                        then glitched @ [0x200D] else glitched),
                i' + 1))"
    by (simp add: wrapped_def Let_def)
  then show ?thesis
    unfolding Sanity_wrapTypeText_def Let_def
    by (simp only: intensity_of_Fin[OF assms] option.case case_prod_beta fst_conv snd_conv)
qed

lemma js_str_a: "js_str ''a'' = [0x61]" "js_str ''aa'' = [0x61, 0x61]"
  by (simp_all add: js_str_def)

lemma glitchable_a: "glitchable 0x61"
  by (simp add: glitchable_def)

text \<open>
  The thresholds show on the text \<open>a\<close>: a roll of 1/64 distorts it at value 45 but not at
  60, a roll of 1/16 distorts it at 25 but not at 45, and a roll of 1/8 distorts it at 10
  but not at 25.
\<close>

lemma roll_products:
  "round_double (5 / 64) = Fin (5 / 64)"
  "round_double (5 / 16) = Fin (5 / 16)"
  "round_double (5 / 8) = Fin (5 / 8)"
  by (simp_all add: round_double_binade[where k = "-4"] round_double_binade[where k = "-2"]
        round_double_binade[where k = "-1"] round_even_def Let_def)

lemma half_intensities:
  "num_mul (num_lit 0.03) (Fin 0.5) = Fin (8646911284551352 / 2 ^ 59)"
  "num_mul (num_lit 0.08) (Fin 0.5) = Fin (5764607523034235 / 2 ^ 57)"
  "num_mul (num_lit 0.14) (Fin 0.5) = Fin (5044031582654956 / 2 ^ 56)"
  by (simp_all add: num_lit_values[simplified] round_double_binade[where k = "-7"]
        round_double_binade[where k = "-5"] round_double_binade[where k = "-4"]
        round_even_def Let_def)

lemma mutate_a_examples:
  "mutate (Fin 0) (\<lambda>n. 1 / 64) 0x61 0 = ([0x61], 1)"
  "mutate (num_lit 0.03) (\<lambda>n. 1 / 64) 0x61 0 = ([0x61, 0x61], 2)"
  "mutate (num_lit 0.03) (\<lambda>n. 1 / 16) 0x61 0 = ([0x61], 1)"
  "mutate (num_lit 0.08) (\<lambda>n. 1 / 16) 0x61 0 = ([0x61, 0x61], 2)"
  "mutate (num_lit 0.08) (\<lambda>n. 1 / 8) 0x61 0 = ([0x61], 1)"
  "mutate (num_lit 0.14) (\<lambda>n. 1 / 8) 0x61 0 = ([0x61, 0x61], 2)"
  by (simp_all add: mutate_def glitchable_a num_gt_def num_lt_def num_lit_values[simplified]
        roll_products to_int32_def Let_def)

theorem wrapTypeText_intensity_step_witness:
  "Sanity_get (STATE0\<lparr>st_value := Fin 45\<rparr>) = Fin 45
   \<and> Sanity_wrapTypeText host0 (Some (\<lambda>s. s)) (STATE0\<lparr>st_value := Fin 60\<rparr>) (\<lambda>n. 1 / 64) (Str (js_str ''a'')) 0
        = (Some (js_str ''a''), 2)
   \<and> Sanity_wrapTypeText host0 (Some (\<lambda>s. s)) (STATE0\<lparr>st_value := Fin 45\<rparr>) (\<lambda>n. 1 / 64) (Str (js_str ''a'')) 0
        = (Some (js_str ''aa''), 3)
   \<and> Sanity_wrapTypeText host0 (Some (\<lambda>s. s)) (STATE0\<lparr>st_value := Fin 45\<rparr>) (\<lambda>n. 1 / 16) (Str (js_str ''a'')) 0
        = (Some (js_str ''a''), 2)
   \<and> Sanity_wrapTypeText host0 (Some (\<lambda>s. s)) (STATE0\<lparr>st_value := Fin 25\<rparr>) (\<lambda>n. 1 / 16) (Str (js_str ''a'')) 0
        = (Some (js_str ''aa''), 3)
   \<and> Sanity_wrapTypeText host0 (Some (\<lambda>s. s)) (STATE0\<lparr>st_value := Fin 25\<rparr>) (\<lambda>n. 1 / 8) (Str (js_str ''a'')) 0
        = (Some (js_str ''a''), 2)
   \<and> Sanity_wrapTypeText host0 (Some (\<lambda>s. s)) (STATE0\<lparr>st_value := Fin 10\<rparr>) (\<lambda>n. 1 / 8) (Str (js_str ''a'')) 0
        = (Some (js_str ''aa''), 3)"
proof -
  have g: "Sanity_get (STATE0\<lparr>st_value := Fin y\<rparr>) = Fin y" for y
    by (simp add: Sanity_get_def)
  show ?thesis
    using wrapTypeText_intensity_step[of "STATE0\<lparr>st_value := Fin 60\<rparr>" 60 host0 "\<lambda>s. s"
            "\<lambda>n. 1 / 64" "Str (js_str ''a'')" 0, OF g]
          wrapTypeText_intensity_step[of "STATE0\<lparr>st_value := Fin 45\<rparr>" 45 host0 "\<lambda>s. s"
            "\<lambda>n. 1 / 64" "Str (js_str ''a'')" 0, OF g]
          wrapTypeText_intensity_step[of "STATE0\<lparr>st_value := Fin 45\<rparr>" 45 host0 "\<lambda>s. s"
            "\<lambda>n. 1 / 16" "Str (js_str ''a'')" 0, OF g]
          wrapTypeText_intensity_step[of "STATE0\<lparr>st_value := Fin 25\<rparr>" 25 host0 "\<lambda>s. s"
            "\<lambda>n. 1 / 16" "Str (js_str ''a'')" 0, OF g]
          wrapTypeText_intensity_step[of "STATE0\<lparr>st_value := Fin 25\<rparr>" 25 host0 "\<lambda>s. s"
            "\<lambda>n. 1 / 8" "Str (js_str ''a'')" 0, OF g]
          wrapTypeText_intensity_step[of "STATE0\<lparr>st_value := Fin 10\<rparr>" 10 host0 "\<lambda>s. s"
            "\<lambda>n. 1 / 8" "Str (js_str ''a'')" 0, OF g]
    by (simp add: g js_str_a mutate_a_examples[simplified] half_intensities[simplified]
          num_lt_def round_double_zero)
qed

text \<open>
  C3. With the sanity value at 100 (intensity 0), a roll of exactly 0 is not greater than
  the intensity, so the character is distorted: on the text \<open>a\<close> with every roll 0 the
  wrapped render function receives \<open>aa\<close>, not the input.
\<close>

theorem wrapped_zero_roll:
  "num_ge (Sanity_get STATE0) (Fin 60)
   \<and> intensity_of STATE0 = Fin 0
   \<and> wrapped host0 (\<lambda>s. s) STATE0 (\<lambda>n. 0) (Str (js_str ''a'')) 0 = (js_str ''aa'', 3)
   \<and> js_str ''aa'' \<noteq> String_js (cv host0) (Str (js_str ''a''))"
proof -
  have 1: "Sanity_get STATE0 = Fin 100" by (simp add: Sanity_get_def STATE0_def)
  have 2: "intensity_of STATE0 = Fin 0" using intensity_of_Fin[OF 1] by simp
  have 4: "mutate (Fin 0) (\<lambda>n. 0) 0x61 0 = ([0x61, 0x61], 2)"
    by (simp add: mutate_def glitchable_a num_gt_def num_lt_def round_double_zero to_int32_def)
  show ?thesis
    by (simp add: 1 2 4 wrapped_def js_str_a num_ge_def num_lt_def round_double_zero)
qed

text \<open>
  When every roll is strictly positive, intensity 0 leaves the text as it is; and with
  rolls that are not negative no zero-width joiner is ever appended at intensity 0.
\<close>

lemma mutate_positive_rolls:
  assumes "\<forall>n. 0 < rnd n"
  shows "fst (mutate (Fin 0) rnd ch i) = [ch]"
proof -
  from assms have "0 \<le> rnd i" "rnd i \<noteq> 0"
    by (simp_all add: less_imp_le less_imp_neq[THEN not_sym])
  then show ?thesis
    by (simp add: mutate_def Let_def num_gt_def num_lt_def)
qed

lemma mutate_all_positive_rolls:
  assumes "\<forall>n. 0 < rnd n"
  shows "fst (mutate_all (Fin 0) rnd s i) = s"
proof (induction s arbitrary: i)
  case Nil
  show ?case by simp
next
  case (Cons ch rest)
  show ?case
    by (simp add: case_prod_beta Cons.IH mutate_positive_rolls[OF assms])
qed

lemma wrapped_positive_rolls:
  assumes "intensity_of st = Fin 0" and "\<forall>n. 0 < rnd n"
  shows "fst (wrapped h typeFn st rnd text i) = typeFn (String_js (cv h) text)"
proof -
  have "\<not> rnd k \<le> 0" for k using assms(2) by (simp add: not_le)
  with mutate_all_positive_rolls[OF assms(2), of "String_js (cv h) text" i] assms(1)
  show ?thesis
    by (simp add: wrapped_def Let_def case_prod_beta num_lt_def round_double_zero)
qed

lemma wrapped_never_joiner:
  assumes "intensity_of st = Fin 0" and "\<forall>n. 0 \<le> rnd n"
  shows "fst (wrapped h (\<lambda>s. s) st rnd text i) = fst (mutate_all (Fin 0) rnd (String_js (cv h) text) i)"
proof -
  have "\<not> (rnd k \<le> 0 \<and> rnd k \<noteq> 0)" for k using assms(2) by (simp add: order.antisym)
  with assms(1) show ?thesis
    by (simp add: wrapped_def Let_def case_prod_beta num_lt_def round_double_zero)
qed


subsection \<open>Subscribing\<close>

lemma indexOf_nonneg: "(0 \<le> indexOf xs x) = (x \<in> set xs)"
  by (induction xs) (auto simp: Let_def)

lemma splice1_indexOf: "x \<in> set xs \<Longrightarrow> splice1 xs (nat (indexOf xs x)) = remove1 x xs"
proof (induction xs)
  case Nil
  then show ?case by simp
next
  case (Cons y ys)
  show ?case
  proof (cases "y = x")
    case True
    then show ?thesis by (simp add: splice1_def)
  next
    case False
    with Cons.prems have m: "x \<in> set ys" by simp
    then have "0 \<le> indexOf ys x" by (simp add: indexOf_nonneg)
    then have "nat (indexOf ys x + 1) = Suc (nat (indexOf ys x))" by simp
    with False m Cons.IH[OF m] \<open>0 \<le> indexOf ys x\<close> show ?thesis
      by (simp add: splice1_def Let_def)
  qed
qed

lemma unsubscribe_remove1:
  "unsubscribe f s = s\<lparr>st_subscribers := remove1 f (st_subscribers s)\<rparr>"
proof (cases "f \<in> set (st_subscribers s)")
  case True
  then show ?thesis
    by (simp add: unsubscribe_def Let_def indexOf_nonneg splice1_indexOf)
next
  case False
  then show ?thesis
    by (simp add: unsubscribe_def Let_def indexOf_nonneg remove1_idem)
qed

text \<open>
  C4. For every function callback \<open>f\<close>, \<open>subscribe(f)\<close> appends \<open>f\<close> to the subscriber
  list, calls \<open>f\<close> exactly once, at once, with the current sanity value, and returns an
  unsubscribe function; that function removes the first occurrence of \<open>f\<close> from the list,
  so that when \<open>f\<close> was not subscribed before, unsubscribing restores the state before the
  subscription.
\<close>

theorem subscribe_immediate:
  "Sanity_subscribe h (Fn f) st w =
     (Returns (unsubscribe f),
      st\<lparr>st_subscribers := st_subscribers st @ [f]\<rparr>,
      w\<lparr>calls := calls w @ [(f, Sanity_get st)]\<rparr>)
   \<and> (\<forall>s. unsubscribe f s = s\<lparr>st_subscribers := remove1 f (st_subscribers s)\<rparr>)
   \<and> (f \<notin> set (st_subscribers st) \<longrightarrow>
        unsubscribe f (st\<lparr>st_subscribers := st_subscribers st @ [f]\<rparr>) = st)"
proof -
  have 1: "Sanity_subscribe h (Fn f) st w =
     (Returns (unsubscribe f),
      st\<lparr>st_subscribers := st_subscribers st @ [f]\<rparr>,
      w\<lparr>calls := calls w @ [(f, Sanity_get st)]\<rparr>)"
    by (simp add: Sanity_subscribe_def try_catch_def invoke_def Sanity_get_def Let_def)
  have 2: "\<forall>s. unsubscribe f s = s\<lparr>st_subscribers := remove1 f (st_subscribers s)\<rparr>"
    by (simp add: unsubscribe_remove1)
  have 3: "f \<notin> set (st_subscribers st) \<longrightarrow>
        unsubscribe f (st\<lparr>st_subscribers := st_subscribers st @ [f]\<rparr>) = st"
    by (simp add: unsubscribe_remove1 remove1_append remove1_idem)
  from 1 2 3 show ?thesis by blast
qed

theorem subscribe_immediate_witness:
  "calls (snd (snd (Sanity_subscribe host0 (Fn 7) STATE0 world0))) = [(7, Fin 100)]
   \<and> st_subscribers (fst (snd (Sanity_subscribe host0 (Fn 7) STATE0 world0))) = [7]
   \<and> 7 \<notin> set (st_subscribers STATE0)
   \<and> unsubscribe 7 (fst (snd (Sanity_subscribe host0 (Fn 7) STATE0 world0))) = STATE0"
proof -
  have g: "Sanity_get STATE0 = Fin 100" "st_subscribers STATE0 = []"
    by (simp_all add: Sanity_get_def STATE0_def)
  have w: "calls world0 = []" by (simp add: world0_def)
  show ?thesis
    using subscribe_immediate[of host0 7 STATE0 world0]
    by (simp add: g w)
qed

subsection \<open>Setting the current value\<close>

text \<open>
  C5. In a state of the store, when the clamped number of the input equals the current
  value, \<open>set\<close> changes neither the state nor the surroundings (no callback is called, no
  event is dispatched) and returns the current value; likewise \<open>add\<close> when the clamped
  sum, as the language computes it, equals the current value.
\<close>

theorem unchanged_value_silent:
  assumes "sane st"
  shows "(Number_js (cv h) v = Returns n \<and> clamp_0_100 (or_zero n) = Sanity_get st
            \<longrightarrow> Sanity_set h v st w = (Returns (Sanity_get st), st, w))
       \<and> (Number_js (cv h) d = Returns m
            \<and> clamp_0_100 (num_add (Sanity_get st) (or_zero m)) = Sanity_get st
            \<longrightarrow> Sanity_add h d st w = (Returns (Sanity_get st), st, w))"
  using assms
  by (auto simp: Sanity_set_def Sanity_add_def sane_def clamp_eq num_or_zero Let_def
        strict_eq_def in_range_def Sanity_get_def split: jsnum.splits)

text \<open>
  Examples on the fresh store (value 100): \<open>set(150)\<close> and \<open>add(5)\<close> saturate at 100,
  and \<open>add(-2^-60)\<close> is silent too, since the sum rounds to 100.
\<close>

theorem unchanged_value_silent_witness:
  "sane STATE1
   \<and> Number_js (cv host_throwing) (Num (Fin 150)) = Returns (Fin 150)
   \<and> clamp_0_100 (or_zero (Fin 150)) = Sanity_get STATE1
   \<and> clamp_0_100 (num_add (Sanity_get STATE1) (or_zero (Fin (- (1 / 2 ^ 60))))) = Sanity_get STATE1
   \<and> Sanity_set host_throwing (Num (Fin 150)) STATE1 world0 = (Returns (Fin 100), STATE1, world0)
   \<and> Sanity_add host_throwing (Num (Fin 5)) STATE1 world0 = (Returns (Fin 100), STATE1, world0)
   \<and> Sanity_add host_throwing (Num (Fin (- (1 / 2 ^ 60)))) STATE1 world0
        = (Returns (Fin 100), STATE1, world0)"
proof -
  have g: "Sanity_get STATE1 = Fin 100"
    by (simp add: Sanity_get_def STATE1_def STATE0_def)
  have s: "sane STATE1"
    by (simp add: sane_def STATE1_def STATE0_def in_range_def)
  show ?thesis
    using unchanged_value_silent[OF s, of host_throwing "Num (Fin 150)" "Fin 150" world0
             "Num (Fin 5)" "Fin 5"]
          unchanged_value_silent[OF s, of host_throwing "Num (Fin 150)" "Fin 150" world0
             "Num (Fin (- (1 / 2 ^ 60)))" "Fin (- (1 / 2 ^ 60))"]
    by (simp add: s g or_zero_def clamp_0_100_def round_double_examples
          round_double_examples(5)[simplified])
qed

subsection \<open>Initialisation\<close>

lemma ensureBadge_eq:
  "ensureBadge h c st w =
     (let pill = (case existing_pill h c of Some p \<Rightarrow> p | None \<Rightarrow> new_pill h c);
          st' = st\<lparr>st_mountedBadge := Some pill\<rparr>
      in (Returns pill, st', snd (notify h st' w)))"
  by (simp add: ensureBadge_def notify_eq Let_def split: option.splits)

lemma Sanity_init_value:
  assumes "Number_js (cv h) (nullish_or (opt_start (assign_options (st_options st) opts))
                               (Num (Fin 100))) = Returns n"
  shows "st_value (fst (snd (Sanity_init h opts st w))) =
           clamp (num_or n (Fin 100)) (st_min st) (st_max st)"
  using assms
  by (simp add: Sanity_init_def ensureBadge_eq Let_def notify_eq split: completion.splits option.splits)

lemma Sanity_init_throws:
  assumes "Number_js (cv h) (nullish_or (opt_start (assign_options (st_options st) opts))
                               (Num (Fin 100))) = Throws"
  shows "Sanity_init h opts st w =
           (Throws, st\<lparr>st_options := assign_options (st_options st) opts\<rparr>, w)"
  using assms by (simp add: Sanity_init_def Let_def)

lemma init_start_nonzero:
  assumes "sane st" and "s \<noteq> 0"
  shows "Sanity_get (fst (snd (Sanity_init h (Some \<lparr>given_start = Some (Num (Fin s)), given_mount = m\<rparr>) st w)))
           = clamp_0_100 (Fin s)"
  using assms
  by (simp add: Sanity_get_def Sanity_init_value assign_options_def nullish_or_def num_or_def
        num_truthy_def sane_def clamp_eq)

text \<open>
  C6. \<open>init({start: 0})\<close> on the initial state stores 100, although 0 clamped into the
  range is 0: the fallback \<open>|| 100\<close> takes the number 0 for an invalid start.
\<close>

theorem init_start_zero:
  "Sanity_get (fst (snd (Sanity_init host0 (Some \<lparr>given_start = Some (Num (Fin 0)), given_mount = None\<rparr>)
                           STATE0 world0))) = Fin 100
   \<and> clamp_0_100 (Fin 0) = Fin 0"
  by (simp add: Sanity_get_def Sanity_init_value assign_options_def nullish_or_def num_or_def
        num_truthy_def STATE0_def clamp_eq clamp_0_100_def)

lemma Sanity_init_bounds:
  "st_min (fst (snd (Sanity_init h opts st w))) = st_min st"
  "st_max (fst (snd (Sanity_init h opts st w))) = st_max st"
  by (simp_all add: Sanity_init_def ensureBadge_eq Let_def notify_eq split: completion.splits option.splits)

text \<open>Every operation keeps the invariant of the store.\<close>

lemma num_or_100_in_range: "in_range (clamp_0_100 (num_or n (Fin 100)))"
  by (rule clamp_in_range) (auto simp: num_or_def num_truthy_def)

lemma Sanity_init_sane: "sane st \<Longrightarrow> sane (fst (snd (Sanity_init h opts st w)))"
proof (cases "Number_js (cv h) (nullish_or (opt_start (assign_options (st_options st) opts))
                              (Num (Fin 100)))")
  case (Returns n)
  assume "sane st"
  then show ?thesis
    using Sanity_init_value[OF Returns, of w] num_or_100_in_range[of n]
    by (simp add: sane_def clamp_eq Sanity_init_bounds)
next
  case Throws
  assume "sane st"
  then show ?thesis by (simp add: Sanity_init_throws[OF Throws] sane_def)
qed

lemma Sanity_subscribe_sane: "sane st \<Longrightarrow> sane (fst (snd (Sanity_subscribe h cb st w)))"
  by (cases cb) (simp_all add: Sanity_subscribe_def try_catch_def invoke_def sane_def Let_def)

lemma unsubscribe_sane: "sane st \<Longrightarrow> sane (unsubscribe f st)"
  by (simp add: unsubscribe_remove1 sane_def)

lemma scenario_init_add:
  "Sanity_get scenario1 = Fin 50 \<and> Sanity_get scenario2 = Fin 0 \<and> Sanity_get scenario3 = Fin 100"
proof -
  have 1: "Sanity_get scenario1 = Fin 50"
    unfolding scenario1_def using init_start_nonzero[OF sane_STATE0, of 50 host0 None world0]
    by (simp add: clamp_0_100_def)
  have s1: "sane scenario1"
    using 1 by (simp add: sane_def scenario1_def Sanity_init_bounds Sanity_get_def in_range_def STATE0_def)
  have 2: "Sanity_get scenario2 = Fin 0"
    unfolding scenario2_def using Sanity_add_value(1)[OF s1, of host0 "Num (Fin (-70))" "Fin (-70)" world0] 1
    by (simp add: or_zero_def clamp_0_100_def Sanity_get_def round_double_examples)
  have s2: "sane scenario2"
    unfolding scenario2_def using s1 by (rule Sanity_add_sane)
  have 3: "Sanity_get scenario3 = Fin 100"
    unfolding scenario3_def using Sanity_add_value(1)[OF s2, of host0 "Num (Fin 1000)" "Fin 1000" world0] 2
    by (simp add: or_zero_def clamp_0_100_def Sanity_get_def round_double_examples)
  from 1 2 3 show ?thesis by simp
qed




section \<open>Properties of the inventory\<close>

subsection \<open>Dispatch and save, computed\<close>

lemma dispatch_loop_fst: "fst (dispatch_loop h d cbs w) = Returns ()"
  by (induction cbs arbitrary: w) (simp_all add: inv_invoke_def)

lemma dispatch_loop_calls:
  "inv_calls (snd (dispatch_loop h d cbs w)) = inv_calls w @ map (\<lambda>cb. (cb, d)) cbs"
  by (induction cbs arbitrary: w) (simp_all add: inv_invoke_def)

lemma dispatch_loop_events: "inv_events (snd (dispatch_loop h d cbs w)) = inv_events w"
  by (induction cbs arbitrary: w) (simp_all add: inv_invoke_def)

lemma dispatch_loop_storage: "storage (snd (dispatch_loop h d cbs w)) = storage w"
  by (induction cbs arbitrary: w) (simp_all add: inv_invoke_def)

lemma dispatch_eq:
  "dispatch h ty d iv w =
     (Returns (), snd (try_catch (window_dispatch h ty d (snd (dispatch_loop h d (listeners_of iv ty) w)))))"
proof (cases "listeners iv ty")
  case None
  then show ?thesis by (simp add: dispatch_def listeners_of_def try_catch_def)
next
  case (Some cbs)
  then show ?thesis
    using dispatch_loop_fst[of h d cbs w]
    by (cases "dispatch_loop h d cbs w") (simp add: dispatch_def listeners_of_def try_catch_def)
qed

lemma dispatch_fst: "fst (dispatch h ty d iv w) = Returns ()"
  by (simp add: dispatch_eq)

lemma dispatch_calls:
  "inv_calls (snd (dispatch h ty d iv w)) = inv_calls w @ map (\<lambda>cb. (cb, d)) (listeners_of iv ty)"
  by (simp add: dispatch_eq try_catch_def window_dispatch_def dispatch_loop_calls)

lemma dispatch_events:
  "inv_events (snd (dispatch h ty d iv w)) = inv_events w @ (if window_ok h then [(ty, d)] else [])"
  by (simp add: dispatch_eq try_catch_def window_dispatch_def dispatch_loop_events)

lemma dispatch_storage: "storage (snd (dispatch h ty d iv w)) = storage w"
  by (simp add: dispatch_eq try_catch_def window_dispatch_def dispatch_loop_storage)

lemma save_eq:
  "save h iv w = dispatch h inventory_change (ItemList (items iv)) iv (snd (setItem h (items iv) w))"
  by (simp add: save_def try_catch_def list_items_def)

lemma save_fst: "fst (save h iv w) = Returns ()"
  by (simp add: save_eq dispatch_fst)

lemma save_calls:
  "inv_calls (snd (save h iv w)) =
     inv_calls w @ map (\<lambda>cb. (cb, ItemList (items iv))) (listeners_of iv inventory_change)"
  by (simp add: save_eq dispatch_calls setItem_def)



lemma listeners_of_items [simp]: "listeners_of (iv\<lparr>items := xs\<rparr>) ty = listeners_of iv ty"
  by (simp add: listeners_of_def)



subsection \<open>Examples\<close>

lemma example_items:
  "key_item \<noteq> []" "map_item \<noteq> []" "key_item \<noteq> map_item" "map_item \<noteq> key_item"
  "js_str ''undefined'' \<noteq> key_item" "key_item \<noteq> js_str ''undefined''"
  by (simp_all add: key_item_def map_item_def js_str_def)

lemma example_inventory1:
  "items inventory1 = [key_item]"
  "inventory1\<lparr>items := [key_item]\<rparr> = inventory1"
  "listeners_of inventory1 inventory_change = [1, 2]"
  "listeners_of inventory1 inventory_use = [3]"
  by (simp_all add: inventory1_def listeners_of_def)

lemma example_inv_world0:
  "inv_calls inv_world0 = []" "inv_events inv_world0 = []" "storage inv_world0 = None"
  by (simp_all add: inv_world0_def)

lemma example_inv_host0:
  "window_ok inv_host0" "\<not> setItem_throws inv_host0 xs"
  by (simp_all add: inv_host0_def)

subsection \<open>Adding, using and removing items\<close>




text \<open>
  C8. \<open>use(name)\<close> never changes the item set or the storage. When the name's string is
  in the item set it calls every use listener once with \<open>{item: name}\<close> and dispatches one
  use event (when the window takes it); when it is not, it does nothing at all.
\<close>

theorem inventory_use:
  fixes h name iv w
  defines "s \<equiv> String_js (icv h) name"
  defines "r \<equiv> Inventory_use h name iv w"
  shows "fst r = Returns () \<and> fst (snd r) = iv \<and> storage (snd (snd r)) = storage w
       \<and> inv_events (snd (snd r)) =
           inv_events w @ (if Set_has (items iv) s \<and> window_ok h then [(inventory_use, UseItem s)] else [])
       \<and> inv_calls (snd (snd r)) =
           inv_calls w @ (if Set_has (items iv) s
                          then map (\<lambda>cb. (cb, UseItem s)) (listeners_of iv inventory_use) else [])
       \<and> (\<not> Set_has (items iv) s \<longrightarrow> snd (snd r) = w)"
  by (simp add: r_def s_def Inventory_use_def case_prod_beta dispatch_fst dispatch_storage
        dispatch_events dispatch_calls)

theorem inventory_use_witness:
  "Set_has (items inventory1) key_item \<and> \<not> Set_has (items inventory1) map_item
   \<and> inv_events (snd (snd (Inventory_use inv_host0 (Str key_item) inventory1 inv_world0)))
        = [(inventory_use, UseItem key_item)]
   \<and> inv_calls (snd (snd (Inventory_use inv_host0 (Str key_item) inventory1 inv_world0)))
        = [(3, UseItem key_item)]
   \<and> snd (snd (Inventory_use inv_host0 (Str map_item) inventory1 inv_world0)) = inv_world0"
  using inventory_use[of inv_host0 "Str key_item" inventory1 inv_world0]
        inventory_use[of inv_host0 "Str map_item" inventory1 inv_world0]
  by (simp add: example_items example_inventory1 example_inv_world0 example_inv_host0 Set_has_def)







section \<open>Exceptions in callbacks\<close>

text \<open>
  \<open>set\<close> and \<open>add\<close> throw exactly when the conversion of their own argument throws,
  whatever the callbacks do.
\<close>

lemma Sanity_set_returns:
  "fst (Sanity_set h v st w) =
     (case Number_js (cv h) v of
        Throws \<Rightarrow> Throws
      | Returns n \<Rightarrow> Returns (Sanity_get (fst (snd (Sanity_set h v st w)))))"
  "st_subscribers (fst (snd (Sanity_set h v st w))) = st_subscribers st"
  by (simp_all add: Sanity_set_def Sanity_get_def Let_def notify_eq split: completion.splits)

lemma Sanity_add_returns:
  "fst (Sanity_add h v st w) =
     (case Number_js (cv h) v of
        Throws \<Rightarrow> Throws
      | Returns n \<Rightarrow> Returns (Sanity_get (fst (snd (Sanity_add h v st w)))))"
  "st_subscribers (fst (snd (Sanity_add h v st w))) = st_subscribers st"
  by (simp_all add: Sanity_add_def Sanity_get_def Let_def notify_eq split: completion.splits)

lemma Inventory_returns:
  "fst (Inventory_add ih name iv iw) = Returns ()"
  "fst (Inventory_remove ih name iv iw) = Returns ()"
  "fst (Inventory_clear ih iv iw) = Returns ()"
  "fst (Inventory_use ih name iv iw) = Returns ()"
  by (simp_all add: Inventory_add_def Inventory_remove_def Inventory_clear_def Inventory_use_def
        Let_def case_prod_beta save_fst dispatch_fst)

lemma Inventory_listeners:
  "listeners (fst (snd (Inventory_add ih name iv iw))) = listeners iv"
  "listeners (fst (snd (Inventory_remove ih name iv iw))) = listeners iv"
  "listeners (fst (snd (Inventory_clear ih iv iw))) = listeners iv"
  "listeners (fst (snd (Inventory_use ih name iv iw))) = listeners iv"
  by (simp_all add: Inventory_add_def Inventory_remove_def Inventory_clear_def Inventory_use_def
        Let_def case_prod_beta)

text \<open>
  C9. Whatever the callbacks do (return or throw), a fan-out of either store returns
  normally and has called every registered callback once, in order; the operations that
  trigger it (\<open>set\<close>, \<open>add\<close>; inventory \<open>add\<close>, \<open>remove\<close>, \<open>clear\<close>, \<open>use\<close>) return
  normally and leave the subscriber list and the listener table as they were. (\<open>set\<close>
  and \<open>add\<close> throw only when the conversion of their own argument does, before any
  fan-out.)
\<close>

theorem fan_out_isolates_exceptions:
  "fst (notify h st w) = Returns ()
   \<and> calls (snd (notify h st w)) = calls w @ map (\<lambda>cb. (cb, st_value st)) (st_subscribers st)
   \<and> fst (Sanity_set h v st w) =
        (case Number_js (cv h) v of
           Throws \<Rightarrow> Throws
         | Returns n \<Rightarrow> Returns (Sanity_get (fst (snd (Sanity_set h v st w)))))
   \<and> st_subscribers (fst (snd (Sanity_set h v st w))) = st_subscribers st
   \<and> fst (Sanity_add h v st w) =
        (case Number_js (cv h) v of
           Throws \<Rightarrow> Throws
         | Returns n \<Rightarrow> Returns (Sanity_get (fst (snd (Sanity_add h v st w)))))
   \<and> st_subscribers (fst (snd (Sanity_add h v st w))) = st_subscribers st
   \<and> fst (dispatch ih ty d iv iw) = Returns ()
   \<and> inv_calls (snd (dispatch ih ty d iv iw)) = inv_calls iw @ map (\<lambda>cb. (cb, d)) (listeners_of iv ty)
   \<and> fst (Inventory_add ih name iv iw) = Returns ()
   \<and> listeners (fst (snd (Inventory_add ih name iv iw))) = listeners iv
   \<and> fst (Inventory_remove ih name iv iw) = Returns ()
   \<and> listeners (fst (snd (Inventory_remove ih name iv iw))) = listeners iv
   \<and> fst (Inventory_clear ih iv iw) = Returns ()
   \<and> listeners (fst (snd (Inventory_clear ih iv iw))) = listeners iv
   \<and> fst (Inventory_use ih name iv iw) = Returns ()
   \<and> listeners (fst (snd (Inventory_use ih name iv iw))) = listeners iv"
  by (simp add: notify_eq Sanity_set_returns Sanity_add_returns Sanity_get_def dispatch_fst
        dispatch_calls Inventory_returns Inventory_listeners)

theorem fan_out_isolates_exceptions_witness:
  "cb_throws host_throwing [] 1 (Fin 40)
   \<and> Sanity_set host_throwing (Num (Fin 40)) STATE1 world0
        = (Returns (Fin 40), STATE1\<lparr>st_value := Fin 40\<rparr>,
           world0\<lparr>calls := [(1, Fin 40), (2, Fin 40)]\<rparr>)
   \<and> listener_throws inv_host_throwing [] 1 (ItemList [key_item, map_item])
   \<and> fst (Inventory_add inv_host_throwing (Str map_item) inventory1 inv_world0) = Returns ()
   \<and> inv_calls (snd (snd (Inventory_add inv_host_throwing (Str map_item) inventory1 inv_world0)))
        = [(1, ItemList [key_item, map_item]), (2, ItemList [key_item, map_item])]
   \<and> console_errors (snd (snd (Inventory_add inv_host_throwing (Str map_item) inventory1 inv_world0)))
        = [1, 2]"
proof -
  have a: "cb_throws host_throwing [] 1 (Fin 40)"
    "listener_throws inv_host_throwing [] 1 (ItemList [key_item, map_item])"
    by (simp_all add: host_throwing_def inv_host_throwing_def)
  have b: "Sanity_set host_throwing (Num (Fin 40)) STATE1 world0
        = (Returns (Fin 40), STATE1\<lparr>st_value := Fin 40\<rparr>,
           world0\<lparr>calls := [(1, Fin 40), (2, Fin 40)]\<rparr>)"
    by (simp add: Sanity_set_def notify_eq STATE1_def STATE0_def host_throwing_def world0_def
          clamp_def Math_max_def Math_min_def num_or_def num_truthy_def strict_eq_def Let_def)
  have c: "console_errors (snd (snd (Inventory_add inv_host_throwing (Str map_item) inventory1 inv_world0)))
        = [1, 2]"
    by (simp add: Inventory_add_def save_def setItem_def try_catch_def dispatch_def inv_invoke_def
          window_dispatch_def list_items_def inventory1_def inv_world0_def inv_host_throwing_def
          example_items Set_add_def Set_has_def Let_def)
  have d: "inv_calls (snd (snd (Inventory_add inv_host_throwing (Str map_item) inventory1 inv_world0)))
        = [(1, ItemList [key_item, map_item]), (2, ItemList [key_item, map_item])]"
    by (simp add: Inventory_add_def save_calls example_inventory1 example_inv_world0
          example_items Set_add_def Set_has_def Let_def case_prod_beta)
  show ?thesis
    using fan_out_isolates_exceptions[of host_throwing STATE1 world0 "Num (Fin 40)"
            inv_host_throwing inventory_change "ItemList []" inventory1 inv_world0 "Str map_item"]
          a b c d
    by simp
qed


end
